theory Spec2Isabelle
  imports Main
begin

section \<open>Python strings and bytes\<close>

text \<open>
  The service (\<^verbatim>\<open>backend/main.py\<close>) handles file names, file contents and
  extracted text. A Python \<^verbatim>\<open>bytes\<close> value is a \<^typ>\<open>string\<close> here (one
  \<^typ>\<open>char\<close> per byte), and a Python \<^verbatim>\<open>str\<close> is represented by its UTF-8
  encoding, so that decoding a well-formed byte sequence gives back the same list.
  \<^verbatim>\<open>str.lower\<close> and \<^verbatim>\<open>str.upper\<close> are modelled on the ASCII letters; bytes of
  characters beyond ASCII are left as they are (Python maps some of them too, but never to
  one of the ASCII letters of \<^verbatim>\<open>pdf\<close> and \<^verbatim>\<open>txt\<close>).
\<close>

definition lower_char :: "char \<Rightarrow> char" where
  "lower_char c =
     (case map_of (zip ''ABCDEFGHIJKLMNOPQRSTUVWXYZ'' ''abcdefghijklmnopqrstuvwxyz'') c of
        None \<Rightarrow> c
      | Some d \<Rightarrow> d)"

definition upper_char :: "char \<Rightarrow> char" where
  "upper_char c =
     (case map_of (zip ''abcdefghijklmnopqrstuvwxyz'' ''ABCDEFGHIJKLMNOPQRSTUVWXYZ'') c of
        None \<Rightarrow> c
      | Some d \<Rightarrow> d)"

definition str_lower :: "string \<Rightarrow> string" where
  "str_lower s = map lower_char s"

definition str_upper :: "string \<Rightarrow> string" where
  "str_upper s = map upper_char s"

text \<open>
  \<^verbatim>\<open>s.split(sep)\<close> for a one-character separator: the pieces between the occurrences
  of \<^verbatim>\<open>sep\<close>. The result always has a piece (the whole string when \<^verbatim>\<open>sep\<close> does
  not occur), so the index \<^verbatim>\<open>[-1]\<close> the handler applies never raises.
\<close>

fun str_split :: "string \<Rightarrow> char \<Rightarrow> string list" where
  "str_split [] sep = [[]]"
| "str_split (c # cs) sep =
     (if c = sep then [] # str_split cs sep
      else (case str_split cs sep of
              [] \<Rightarrow> [[c]]
            | part # parts \<Rightarrow> (c # part) # parts))"

text \<open>\<^verbatim>\<open>sep.join(xs)\<close>.\<close>

fun str_join :: "string \<Rightarrow> string list \<Rightarrow> string" where
  "str_join sep [] = []"
| "str_join sep [x] = x"
| "str_join sep (x # y # ys) = x @ sep @ str_join sep (y # ys)"

text \<open>
  \<^verbatim>\<open>os.path.join(a, b)\<close> on a POSIX system: an absolute second component replaces the
  first, otherwise the two are joined by one slash.
\<close>

definition path_join :: "string \<Rightarrow> string \<Rightarrow> string" where
  "path_join a b =
     (if b \<noteq> [] \<and> hd b = CHR ''/'' then b
      else if a = [] \<or> last a = CHR ''/'' then a @ b
      else a @ ''/'' @ b)"

subsection \<open>Reading a text file\<close>

text \<open>
  \<^verbatim>\<open>open(path, "r", encoding="utf-8")\<close> opens the file in text mode with the default
  \<^verbatim>\<open>newline=None\<close>: \<^verbatim>\<open>read()\<close> decodes the bytes as UTF-8 (strictly: a byte
  sequence that is not well-formed raises \<^verbatim>\<open>UnicodeDecodeError\<close>) and translates every
  line ending \<^verbatim>\<open>\r\n\<close> and every remaining \<^verbatim>\<open>\r\<close> to \<^verbatim>\<open>\n\<close>.
\<close>

definition continuation :: "nat \<Rightarrow> bool" where
  "continuation b = (128 \<le> b \<and> b \<le> 191)"

fun utf8_ok :: "nat list \<Rightarrow> bool" where
  "utf8_ok [] = True"
| "utf8_ok (b # bs) =
     (if b < 128 then utf8_ok bs
      else if 194 \<le> b \<and> b \<le> 223 then
        (case bs of
           c1 # r \<Rightarrow> continuation c1 \<and> utf8_ok r
         | _ \<Rightarrow> False)
      else if 224 \<le> b \<and> b \<le> 239 then
        (case bs of
           c1 # c2 # r \<Rightarrow>
             (if b = 224 then 160 \<le> c1 \<and> c1 \<le> 191
              else if b = 237 then 128 \<le> c1 \<and> c1 \<le> 159
              else continuation c1) \<and> continuation c2 \<and> utf8_ok r
         | _ \<Rightarrow> False)
      else if 240 \<le> b \<and> b \<le> 244 then
        (case bs of
           c1 # c2 # c3 # r \<Rightarrow>
             (if b = 240 then 144 \<le> c1 \<and> c1 \<le> 191
              else if b = 244 then 128 \<le> c1 \<and> c1 \<le> 143
              else continuation c1) \<and> continuation c2 \<and> continuation c3 \<and> utf8_ok r
         | _ \<Rightarrow> False)
      else False)"

definition utf8_decode :: "string \<Rightarrow> string option" where
  "utf8_decode bytes = (if utf8_ok (map of_char bytes) then Some bytes else None)"

fun universal_newlines :: "string \<Rightarrow> string" where
  "universal_newlines [] = []"
| "universal_newlines (c # cs) =
     (if c = CHR 0x0D then
        (case cs of
           [] \<Rightarrow> [CHR 0x0A]
         | d # ds \<Rightarrow>
             if d = CHR 0x0A then CHR 0x0A # universal_newlines ds
             else CHR 0x0A # universal_newlines cs)
      else c # universal_newlines cs)"

section \<open>The data of the service\<close>

text \<open>
  An exception that leaves a handler. \<^verbatim>\<open>HTTPException\<close> carries the status code and
  the detail of the response; an \<^verbatim>\<open>OSError\<close> that no handler catches is answered by
  the framework with status 500.
\<close>

datatype exn = HTTPException nat string | OSError string

fun status_code :: "exn \<Rightarrow> nat" where
  "status_code (HTTPException code detail) = code"
| "status_code (OSError msg) = 500"

text \<open>
  The successful responses: \<^verbatim>\<open>Created doc_id message\<close> is the body of the upload
  endpoint (status 201), \<^verbatim>\<open>Ok doc_id filename extracted_text\<close> the body of the
  retrieval endpoint (status 200).
\<close>

datatype response = Created string string | Ok string "string option" string

text \<open>
  The dictionary stored per document in \<^verbatim>\<open>_upload_store\<close>, with its keys
  \<^verbatim>\<open>filename\<close>, \<^verbatim>\<open>filepath\<close>, \<^verbatim>\<open>extension\<close> and \<^verbatim>\<open>text\<close>.
\<close>

record upload_record =
  rec_filename :: "string option"
  rec_filepath :: string
  rec_extension :: string
  rec_text :: string

text \<open>
  The incoming \<^verbatim>\<open>UploadFile\<close>: its optional file name, the bytes of its stream and
  whether the stream has been closed.
\<close>

record UploadFile =
  filename :: "string option"
  file_stream :: string
  closed :: bool

text \<open>
  The state of the process: the in-memory store, the files under the storage directory
  (path to content) and the number of document and file handles that are open.
\<close>

record state =
  upload_store :: "string \<rightharpoonup> upload_record"
  storage :: "string \<rightharpoonup> string"
  open_handles :: nat

text \<open>
  What the handler does not decide is a parameter of a request:
  \<^item> \<^verbatim>\<open>uuid4\<close>: the identifier \<^verbatim>\<open>str(uuid.uuid4())\<close> returns;
  \<^item> \<^verbatim>\<open>set_order\<close>: the order in which Python iterates the set
    \<^verbatim>\<open>ALLOWED_EXTENSIONS\<close> (fixed within a process, it depends on the hashes of the
    strings, which Python randomises per process);
  \<^item> \<^verbatim>\<open>write_outcome\<close>: whether \<^verbatim>\<open>open(file_path, "wb")\<close> and
    \<^verbatim>\<open>shutil.copyfileobj\<close> succeed, and otherwise the message of the exception and the
    content left at the path (\<^verbatim>\<open>None\<close> when the file was not created);
  \<^item> \<^verbatim>\<open>fitz_open\<close>: PyMuPDF on the bytes of a file: \<^verbatim>\<open>None\<close> when
    \<^verbatim>\<open>fitz.open\<close> raises, otherwise the pages of the document, each page being the text
    \<^verbatim>\<open>page.get_text()\<close> returns, or \<^verbatim>\<open>None\<close> when loading or rendering that page
    raises;
  \<^item> \<^verbatim>\<open>remove_error\<close>: \<^verbatim>\<open>None\<close> when \<^verbatim>\<open>os.remove\<close> of an existing file succeeds,
    otherwise the message of the \<^verbatim>\<open>OSError\<close> it raises.

  A file that was written is read back with the content it was given; the other library
  calls of the handler (\<^verbatim>\<open>os.path.exists\<close>, \<^verbatim>\<open>file.close\<close>) do not fail.
\<close>

datatype write_result = Written | WriteError string "string option"

type_synonym page = "string option"

record env =
  uuid4 :: string
  set_order :: "string list"
  write_outcome :: write_result
  fitz_open :: "string \<Rightarrow> page list option"
  remove_error :: "string option"

definition STORAGE_DIR :: string where
  "STORAGE_DIR = ''backend/storage''"

definition ALLOWED_EXTENSIONS :: "string set" where
  "ALLOWED_EXTENSIONS = {''pdf'', ''txt''}"

section \<open>Text extraction\<close>

text \<open>
  The loop \<^verbatim>\<open>for page in doc: text_content += page.get_text()\<close> with its accumulator;
  \<^verbatim>\<open>None\<close> when a page raises.
\<close>

fun read_pages :: "page list \<Rightarrow> string \<Rightarrow> string option" where
  "read_pages [] text_content = Some text_content"
| "read_pages (None # doc) text_content = None"
| "read_pages (Some page_text # doc) text_content = read_pages doc (text_content @ page_text)"

text \<open>
  \<^verbatim>\<open>extract_text_from_file\<close> (lines 22 to 45). Every exception raised in the
  \<^verbatim>\<open>try\<close> block, the \<^verbatim>\<open>ValueError\<close> of the last branch included, is caught and
  replaced by the same \<^verbatim>\<open>HTTPException\<close>. In the \<^verbatim>\<open>pdf\<close> branch \<^verbatim>\<open>doc.close()\<close>
  is a statement after the loop; in the \<^verbatim>\<open>txt\<close> branch the file is opened by a
  \<^verbatim>\<open>with\<close> statement, which closes it on every exit. (The \<^verbatim>\<open>print\<close> of the
  handler is not modelled.)
\<close>

definition extract_text_from_file :: "env \<Rightarrow> string \<Rightarrow> string \<Rightarrow> state \<Rightarrow> (exn + string) \<times> state" where
  "extract_text_from_file e file_path file_ext s =
     (let failed = Inl (HTTPException 500 ''Failed to extract text from file.'') in
      if file_ext = ''pdf'' then
        (case storage s file_path of
           None \<Rightarrow> (failed, s)
         | Some bytes \<Rightarrow>
             (case fitz_open e bytes of
                None \<Rightarrow> (failed, s)
              | Some doc \<Rightarrow>
                  let s1 = s\<lparr>open_handles := open_handles s + 1\<rparr> in
                  (case read_pages doc [] of
                     None \<Rightarrow> (failed, s1)
                   | Some text_content \<Rightarrow>
                       (Inr text_content, s1\<lparr>open_handles := open_handles s1 - 1\<rparr>))))
      else if file_ext = ''txt'' then
        (case storage s file_path of
           None \<Rightarrow> (failed, s)
         | Some bytes \<Rightarrow>
             let s1 = s\<lparr>open_handles := open_handles s + 1\<rparr>;
                 s2 = s1\<lparr>open_handles := open_handles s1 - 1\<rparr>
             in (case utf8_decode bytes of
                   None \<Rightarrow> (failed, s2)
                 | Some decoded \<Rightarrow> (Inr (universal_newlines decoded), s2)))
      else (failed, s))"

section \<open>The upload endpoint\<close>

text \<open>Line 54: the extension of the supplied file name.\<close>

definition file_extension :: "string option \<Rightarrow> string" where
  "file_extension name =
     (case name of
        None \<Rightarrow> []
      | Some n \<Rightarrow> if n = [] then [] else str_lower (last (str_split n (CHR ''.''))))"

text \<open>Line 58: the detail of the response to a file type that is not allowed.\<close>

definition invalid_type_detail :: "string list \<Rightarrow> string" where
  "invalid_type_detail order =
     ''Invalid file type. Only '' @ str_upper (str_join '', '' order) @ '' files are allowed.''"

text \<open>
  Lines 63 to 72: the copy of the stream to the storage path. The \<^verbatim>\<open>finally\<close> clause
  closes the stream whether the copy succeeded or not.
\<close>

definition copy_upload :: "env \<Rightarrow> UploadFile \<Rightarrow> string \<Rightarrow> state \<Rightarrow> exn option \<times> UploadFile \<times> state" where
  "copy_upload e f file_path s =
     (case write_outcome e of
        Written \<Rightarrow>
          (None, f\<lparr>closed := True\<rparr>, s\<lparr>storage := (storage s)(file_path \<mapsto> file_stream f)\<rparr>)
      | WriteError msg left \<Rightarrow>
          (Some (HTTPException 500 (''Could not save file: '' @ msg)),
           f\<lparr>closed := True\<rparr>,
           (case left of
              None \<Rightarrow> s
            | Some part \<Rightarrow> s\<lparr>storage := (storage s)(file_path \<mapsto> part)\<rparr>)))"

text \<open>
  Lines 84 and 85: \<^verbatim>\<open>if os.path.exists(file_path): os.remove(file_path)\<close>. The call is
  not guarded: when \<^verbatim>\<open>os.remove\<close> raises, its exception leaves the handler in place of
  the one being handled.
\<close>

definition cleanup :: "env \<Rightarrow> string \<Rightarrow> state \<Rightarrow> exn option \<times> state" where
  "cleanup e file_path s =
     (if storage s file_path \<noteq> None then
        (case remove_error e of
           None \<Rightarrow> (None, s\<lparr>storage := (storage s)(file_path := None)\<rparr>)
         | Some msg \<Rightarrow> (Some (OSError msg), s))
      else (None, s))"

text \<open>\<^verbatim>\<open>upload_file\<close> (lines 49 to 88).\<close>

definition upload_file :: "env \<Rightarrow> UploadFile \<Rightarrow> state \<Rightarrow> (exn + response) \<times> UploadFile \<times> state" where
  "upload_file e f s =
     (let doc_id = uuid4 e;
          ext = file_extension (filename f)
      in if ext \<notin> ALLOWED_EXTENSIONS then
           (Inl (HTTPException 400 (invalid_type_detail (set_order e))), f, s)
         else
           let file_path = path_join STORAGE_DIR (doc_id @ ''.'' @ ext) in
           (case copy_upload e f file_path s of
              (Some err, f1, s1) \<Rightarrow> (Inl err, f1, s1)
            | (None, f1, s1) \<Rightarrow>
                (case extract_text_from_file e file_path ext s1 of
                   (Inr extracted_text, s2) \<Rightarrow>
                     (Inr (Created doc_id ''File uploaded and text extracted successfully.''),
                      f1,
                      s2\<lparr>upload_store := (upload_store s2)(doc_id \<mapsto>
                            \<lparr>rec_filename = filename f, rec_filepath = file_path,
                             rec_extension = ext, rec_text = extracted_text\<rparr>)\<rparr>)
                 | (Inl err, s2) \<Rightarrow>
                     (case cleanup e file_path s2 of
                        (None, s3) \<Rightarrow> (Inl err, f1, s3)
                      | (Some err', s3) \<Rightarrow> (Inl err', f1, s3)))))"

section \<open>The retrieval endpoint\<close>

text \<open>\<^verbatim>\<open>get_extracted_text\<close> (lines 92 to 105): a lookup; the state is returned as it was.\<close>

definition get_extracted_text :: "string \<Rightarrow> state \<Rightarrow> (exn + response) \<times> state" where
  "get_extracted_text doc_id s =
     (case upload_store s doc_id of
        None \<Rightarrow> (Inl (HTTPException 404 ''Document ID not found.''), s)
      | Some r \<Rightarrow> (Inr (Ok doc_id (rec_filename r) (rec_text r)), s))"

section \<open>Concrete requests\<close>

text \<open>States, environments and uploads on which the theorems below are instantiated.\<close>

definition empty_state :: state where
  "empty_state = \<lparr>upload_store = Map.empty, storage = Map.empty, open_handles = 0\<rparr>"

definition env_ok :: env where
  "env_ok = \<lparr>uuid4 = ''3f2b8c1e-0d4a-4e6f-9a7b-5c1d2e3f4a5b'', set_order = [''pdf'', ''txt''],
              write_outcome = Written, fitz_open = (\<lambda>bytes. None), remove_error = None\<rparr>"

definition report_docx :: UploadFile where
  "report_docx = \<lparr>filename = Some ''report.docx'', file_stream = ''PK'', closed = False\<rparr>"

definition notes_record :: upload_record where
  "notes_record = \<lparr>rec_filename = Some ''notes.txt'',
                    rec_filepath = ''backend/storage/7d9a2c44-51b0-4c3e-8f6a-0b1c2d3e4f50.txt'',
                    rec_extension = ''txt'', rec_text = ''hello world''\<rparr>"

definition state_one :: state where
  "state_one = \<lparr>upload_store = [''7d9a2c44-51b0-4c3e-8f6a-0b1c2d3e4f50'' \<mapsto> notes_record],
                 storage = [''backend/storage/7d9a2c44-51b0-4c3e-8f6a-0b1c2d3e4f50.txt'' \<mapsto> ''hello world''],
                 open_handles = 0\<rparr>"

definition hello_txt :: UploadFile where
  "hello_txt = \<lparr>filename = Some ''hello.txt'', file_stream = ''hi'', closed = False\<rparr>"

definition scan_pdf :: UploadFile where
  "scan_pdf = \<lparr>filename = Some ''scan.pdf'', file_stream = ''not a pdf'', closed = False\<rparr>"

definition env_two_pages :: env where
  "env_two_pages = \<lparr>uuid4 = ''c0ffee00-1234-4abc-8def-0123456789ab'', set_order = [''txt'', ''pdf''],
     write_outcome = Written,
     fitz_open = (\<lambda>bytes. if bytes = ''%PDF-1.7 (two pages)''
                            then Some [Some ''Section 1. Parties. '', Some ''Section 2. Term.'']
                            else None),
     remove_error = None\<rparr>"

definition contract_pdf :: UploadFile where
  "contract_pdf = \<lparr>filename = Some ''Contract.PDF'', file_stream = ''%PDF-1.7 (two pages)'',
                    closed = False\<rparr>"

definition notes_txt :: UploadFile where
  "notes_txt = \<lparr>filename = Some ''notes.txt'', file_stream = ''hello world'', closed = False\<rparr>"

definition crlf_txt :: UploadFile where
  "crlf_txt = \<lparr>filename = Some ''notes.txt'',
                file_stream = ''first line'' @ [CHR 0x0D, CHR 0x0A] @ ''second line'',
                closed = False\<rparr>"

definition env_txt_first :: env where
  "env_txt_first = \<lparr>uuid4 = ''9b1deb4d-3b7d-4bad-9bdd-2b0d7b3dcb6d'', set_order = [''txt'', ''pdf''],
                     write_outcome = Written, fitz_open = (\<lambda>bytes. None), remove_error = None\<rparr>"

definition txt_no_dot :: UploadFile where
  "txt_no_dot = \<lparr>filename = Some ''TXT'', file_stream = ''hello world'', closed = False\<rparr>"

definition env_page_fails :: env where
  "env_page_fails = \<lparr>uuid4 = ''0a1b2c3d-4e5f-4a6b-8c7d-9e0f1a2b3c4d'', set_order = [''pdf'', ''txt''],
     write_outcome = Written,
     fitz_open = (\<lambda>bytes. if bytes = ''%PDF-1.6 (page 2 damaged)''
                            then Some [Some ''Page 1'', None]
                            else None),
     remove_error = None\<rparr>"

definition damaged_pdf :: UploadFile where
  "damaged_pdf = \<lparr>filename = Some ''damaged.pdf'', file_stream = ''%PDF-1.6 (page 2 damaged)'',
                   closed = False\<rparr>"

definition env_remove_fails :: env where
  "env_remove_fails = \<lparr>uuid4 = ''5e6f7a8b-9c0d-4e1f-a2b3-c4d5e6f7a8b9'', set_order = [''pdf'', ''txt''],
     write_outcome = Written, fitz_open = (\<lambda>bytes. None),
     remove_error = Some ''[Errno 13] Permission denied''\<rparr>"

section \<open>Basic facts\<close>

subsection \<open>Strings, the extension and the detail\<close>

lemma str_split_not_Nil: "str_split s sep \<noteq> []"
  by (induction s) (auto split: list.splits)

lemma str_split_no_sep: "sep \<notin> set s \<Longrightarrow> str_split s sep = [s]"
  by (induction s) auto

lemma str_split_append:
  "str_split (pre @ sep # suf) sep = str_split pre sep @ str_split suf sep"
proof (induction pre)
  case Nil
  show ?case by simp
next
  case (Cons c pre)
  obtain part parts where "str_split pre sep = part # parts"
    using str_split_not_Nil [of pre sep] by (cases "str_split pre sep") auto
  with Cons show ?case by simp
qed

lemma file_extension_absent: "file_extension None = [] \<and> file_extension (Some []) = []"
  by (simp add: file_extension_def)

lemma file_extension_after_last_dot:
  assumes "CHR ''.'' \<notin> set suf"
  shows "file_extension (Some (pre @ ''.'' @ suf)) = str_lower suf"
  using assms by (simp add: file_extension_def str_split_append str_split_no_sep)

lemma file_extension_no_dot:
  assumes "CHR ''.'' \<notin> set n"
  shows "file_extension (Some n) = str_lower n"
  using assms by (simp add: file_extension_def str_split_no_sep str_lower_def)

lemma pdf_allowed: "''pdf'' \<in> ALLOWED_EXTENSIONS"
  by (simp add: ALLOWED_EXTENSIONS_def)

lemma txt_allowed: "''txt'' \<in> ALLOWED_EXTENSIONS"
  by (simp add: ALLOWED_EXTENSIONS_def)

lemma two_element_orders:
  assumes "distinct xs" and "set xs = {a, b}" and "a \<noteq> b"
  shows "xs = [a, b] \<or> xs = [b, a]"
proof -
  have "length xs = 2"
    using assms distinct_card [OF assms(1)] by simp
  then obtain x y where xs: "xs = [x, y]"
    by (cases xs) (auto simp: length_Suc_conv)
  with assms show ?thesis
    by (auto simp: doubleton_eq_iff)
qed

lemma detail_pdf_txt:
  "invalid_type_detail [''pdf'', ''txt''] = ''Invalid file type. Only PDF, TXT files are allowed.''"
  by (simp add: invalid_type_detail_def str_upper_def upper_char_def)

lemma detail_txt_pdf:
  "invalid_type_detail [''txt'', ''pdf''] = ''Invalid file type. Only TXT, PDF files are allowed.''"
  by (simp add: invalid_type_detail_def str_upper_def upper_char_def)

lemma details_differ:
  "''Invalid file type. Only TXT, PDF files are allowed.'' \<noteq>
   ''Invalid file type. Only PDF, TXT files are allowed.''"
  by simp

lemma universal_newlines_no_cr:
  "CHR 0x0D \<notin> set cs \<Longrightarrow> universal_newlines cs = cs"
  by (induction cs) auto

text \<open>The models of \<^verbatim>\<open>split\<close>, of the codec and of text mode on some inputs.\<close>

lemma utf8_ok_examples:
  "utf8_ok [0xEF, 0xBB, 0xBF, 0x61] \<and> utf8_ok [0xF4, 0x8F, 0xBF, 0xBF] \<and>
   utf8_ok [0xED, 0x9F, 0xBF] \<and> \<not> utf8_ok [0xED, 0xA0, 0x80] \<and> \<not> utf8_ok [0xC0, 0x80] \<and>
   \<not> utf8_ok [0xF4, 0x90, 0x80, 0x80] \<and> \<not> utf8_ok [0xE0, 0x9F, 0xBF] \<and>
   \<not> utf8_ok [0xF0, 0x8F, 0xBF, 0xBF] \<and> \<not> utf8_ok [0xC2]"
  by (simp add: continuation_def)

lemma universal_newlines_example:
  "universal_newlines (''a'' @ [CHR 0x0D, CHR 0x0A] @ ''b'' @ [CHR 0x0D] @ ''c'' @ [CHR 0x0A]) =
   ''a'' @ [CHR 0x0A] @ ''b'' @ [CHR 0x0A] @ ''c'' @ [CHR 0x0A]"
  by simp

lemma str_split_examples:
  "str_split ''a..b'' (CHR ''.'') = [''a'', [], ''b''] \<and>
   str_split ''file.'' (CHR ''.'') = [''file'', []] \<and>
   str_split [] (CHR ''.'') = [[]]"
  by simp

subsection \<open>The extraction\<close>

lemma read_pages_concat: "read_pages (map Some page_texts) acc = Some (acc @ concat page_texts)"
  by (induction page_texts arbitrary: acc) simp_all

lemma extract_pdf_pages:
  assumes "storage s p = Some bytes" and "fitz_open e bytes = Some (map Some page_texts)"
  shows "extract_text_from_file e p ''pdf'' s = (Inr (concat page_texts), s)"
  using assms by (simp add: extract_text_from_file_def Let_def read_pages_concat)

lemma extract_txt_decoded:
  assumes "storage s p = Some bytes" and "utf8_ok (map of_char bytes)"
  shows "extract_text_from_file e p ''txt'' s = (Inr (universal_newlines bytes), s)"
  using assms by (simp add: extract_text_from_file_def Let_def utf8_decode_def)

lemma extract_error:
  "fst (extract_text_from_file e p x s) = Inl err \<Longrightarrow>
   err = HTTPException 500 ''Failed to extract text from file.''"
  by (auto simp: extract_text_from_file_def Let_def split: option.splits if_splits)

lemma extract_keeps_store:
  "upload_store (snd (extract_text_from_file e p x s)) = upload_store s"
  by (simp add: extract_text_from_file_def Let_def split: option.splits)

lemma extract_keeps_storage:
  "storage (snd (extract_text_from_file e p x s)) = storage s"
  by (simp add: extract_text_from_file_def Let_def split: option.splits)

lemma extract_handles:
  "open_handles (snd (extract_text_from_file e p x s)) =
     (if x = ''pdf'' \<and>
         (case storage s p of
            None \<Rightarrow> False
          | Some bytes \<Rightarrow>
              (case fitz_open e bytes of
                 None \<Rightarrow> False
               | Some doc \<Rightarrow> read_pages doc [] = None))
      then open_handles s + 1 else open_handles s)"
  by (simp add: extract_text_from_file_def Let_def split: option.splits)

lemma extract_txt_releases:
  "open_handles (snd (extract_text_from_file e p ''txt'' s)) = open_handles s"
  by (simp add: extract_handles)

subsection \<open>The branches of the upload\<close>

lemma upload_file_invalid:
  "file_extension (filename f) \<notin> ALLOWED_EXTENSIONS \<Longrightarrow>
   upload_file e f s = (Inl (HTTPException 400 (invalid_type_detail (set_order e))), f, s)"
  by (simp add: upload_file_def)

lemma cleanup_keeps_store:
  "upload_store (snd (cleanup e p s)) = upload_store s"
  by (simp add: cleanup_def split: option.splits)

lemma cleanup_removes:
  "remove_error e = None \<Longrightarrow> cleanup e p s = (None, s\<lparr>storage := (storage s)(p := None)\<rparr>)"
  by (cases s) (auto simp: cleanup_def fun_upd_idem)

lemma cleanup_fails:
  "remove_error e = Some msg \<Longrightarrow> storage s p \<noteq> None \<Longrightarrow> cleanup e p s = (Some (OSError msg), s)"
  by (simp add: cleanup_def)

lemma upload_file_write_error:
  assumes "file_extension (filename f) \<in> ALLOWED_EXTENSIONS"
    and "write_outcome e = WriteError msg left"
  shows "upload_file e f s =
     (Inl (HTTPException 500 (''Could not save file: '' @ msg)), f\<lparr>closed := True\<rparr>,
      (case left of
         None \<Rightarrow> s
       | Some part \<Rightarrow>
           s\<lparr>storage := (storage s)
                (path_join STORAGE_DIR (uuid4 e @ ''.'' @ file_extension (filename f)) \<mapsto> part)\<rparr>))"
  using assms by (simp add: upload_file_def copy_upload_def Let_def split: option.splits)

lemma upload_file_extracted:
  assumes "file_extension (filename f) \<in> ALLOWED_EXTENSIONS"
    and "write_outcome e = Written"
    and "p = path_join STORAGE_DIR (uuid4 e @ ''.'' @ file_extension (filename f))"
    and "extract_text_from_file e p (file_extension (filename f))
           (s\<lparr>storage := (storage s)(p \<mapsto> file_stream f)\<rparr>) = (Inr t, s2)"
  shows "upload_file e f s =
     (Inr (Created (uuid4 e) ''File uploaded and text extracted successfully.''),
      f\<lparr>closed := True\<rparr>,
      s2\<lparr>upload_store := (upload_store s2)(uuid4 e \<mapsto>
            \<lparr>rec_filename = filename f, rec_filepath = p,
             rec_extension = file_extension (filename f), rec_text = t\<rparr>)\<rparr>)"
  using assms by (simp add: upload_file_def copy_upload_def Let_def)

lemma upload_file_extract_failed:
  assumes "file_extension (filename f) \<in> ALLOWED_EXTENSIONS"
    and "write_outcome e = Written"
    and "p = path_join STORAGE_DIR (uuid4 e @ ''.'' @ file_extension (filename f))"
    and "extract_text_from_file e p (file_extension (filename f))
           (s\<lparr>storage := (storage s)(p \<mapsto> file_stream f)\<rparr>) = (Inl err, s2)"
  shows "upload_file e f s =
     (Inl (case fst (cleanup e p s2) of None \<Rightarrow> err | Some err' \<Rightarrow> err'),
      f\<lparr>closed := True\<rparr>, snd (cleanup e p s2))"
  using assms by (simp add: upload_file_def copy_upload_def Let_def split: prod.splits option.splits)

lemma upload_file_Inr:
  assumes "fst (upload_file e f s) = Inr r"
    and "p = path_join STORAGE_DIR (uuid4 e @ ''.'' @ file_extension (filename f))"
  shows "file_extension (filename f) \<in> ALLOWED_EXTENSIONS \<and> write_outcome e = Written \<and>
         (\<exists>t s2. extract_text_from_file e p (file_extension (filename f))
                    (s\<lparr>storage := (storage s)(p \<mapsto> file_stream f)\<rparr>) = (Inr t, s2))"
proof -
  have allowed: "file_extension (filename f) \<in> ALLOWED_EXTENSIONS"
  proof (rule ccontr)
    assume "file_extension (filename f) \<notin> ALLOWED_EXTENSIONS"
    with assms(1) show False by (simp add: upload_file_invalid)
  qed
  have Written: "write_outcome e = Written"
    using assms(1) by (cases "write_outcome e") (simp_all add: upload_file_write_error [OF allowed])
  obtain res s2 where ex:
    "extract_text_from_file e p (file_extension (filename f))
       (s\<lparr>storage := (storage s)(p \<mapsto> file_stream f)\<rparr>) = (res, s2)"
    by (cases "extract_text_from_file e p (file_extension (filename f))
       (s\<lparr>storage := (storage s)(p \<mapsto> file_stream f)\<rparr>)")
  have "\<exists>t. res = Inr t"
    using assms(1) ex
    by (cases res) (simp_all add: upload_file_extract_failed [OF allowed Written assms(2)])
  with allowed Written ex show ?thesis by blast
qed

lemma upload_file_failed_store:
  assumes "fst (upload_file e f s) = Inl err"
  shows "upload_store (snd (snd (upload_file e f s))) = upload_store s"
proof (cases "file_extension (filename f) \<in> ALLOWED_EXTENSIONS")
  case False
  then show ?thesis by (simp add: upload_file_invalid)
next
  case allowed: True
  define p where "p = path_join STORAGE_DIR (uuid4 e @ ''.'' @ file_extension (filename f))"
  show ?thesis
  proof (cases "write_outcome e")
    case (WriteError msg left)
    show ?thesis
      by (simp add: upload_file_write_error [OF allowed WriteError] split: option.splits)
  next
    case Written
    obtain res s2 where ex:
      "extract_text_from_file e p (file_extension (filename f))
         (s\<lparr>storage := (storage s)(p \<mapsto> file_stream f)\<rparr>) = (res, s2)"
      by (cases "extract_text_from_file e p (file_extension (filename f))
         (s\<lparr>storage := (storage s)(p \<mapsto> file_stream f)\<rparr>)") 
    have s2: "upload_store s2 = upload_store s"
      using extract_keeps_store [of e p "file_extension (filename f)"
          "s\<lparr>storage := (storage s)(p \<mapsto> file_stream f)\<rparr>"] ex by simp
    show ?thesis
    proof (cases res)
      case (Inl err')
      show ?thesis
        using ex s2 unfolding Inl
        by (simp add: upload_file_extract_failed [OF allowed Written p_def] cleanup_keeps_store)
    next
      case (Inr t)
      show ?thesis
        using ex assms unfolding Inr
        by (simp add: upload_file_extracted [OF allowed Written p_def])
    qed
  qed
qed

lemma upload_file_other_keys:
  assumes "k \<noteq> uuid4 e"
  shows "upload_store (snd (snd (upload_file e f s))) k = upload_store s k"
proof (cases "fst (upload_file e f s)")
  case (Inl err)
  then show ?thesis by (simp add: upload_file_failed_store)
next
  case (Inr r)
  define p where "p = path_join STORAGE_DIR (uuid4 e @ ''.'' @ file_extension (filename f))"
  from upload_file_Inr [OF Inr p_def] obtain t s2 where
    allowed: "file_extension (filename f) \<in> ALLOWED_EXTENSIONS" and
    Written: "write_outcome e = Written" and
    ex: "extract_text_from_file e p (file_extension (filename f))
       (s\<lparr>storage := (storage s)(p \<mapsto> file_stream f)\<rparr>) = (Inr t, s2)"
    by blast
  have s2: "upload_store s2 = upload_store s"
    using extract_keeps_store [of e p "file_extension (filename f)"
        "s\<lparr>storage := (storage s)(p \<mapsto> file_stream f)\<rparr>"] ex by simp
  show ?thesis
    using s2 assms by (simp add: upload_file_extracted [OF allowed Written p_def ex])
qed

lemma upload_file_closed:
  "closed (fst (snd (upload_file e f s))) \<longleftrightarrow>
   closed f \<or> file_extension (filename f) \<in> ALLOWED_EXTENSIONS"
proof (cases "file_extension (filename f) \<in> ALLOWED_EXTENSIONS")
  case False
  then show ?thesis by (simp add: upload_file_invalid)
next
  case allowed: True
  define p where "p = path_join STORAGE_DIR (uuid4 e @ ''.'' @ file_extension (filename f))"
  show ?thesis
  proof (cases "write_outcome e")
    case (WriteError msg left)
    show ?thesis
      using allowed by (simp add: upload_file_write_error [OF allowed WriteError])
  next
    case Written
    obtain res s2 where ex:
      "extract_text_from_file e p (file_extension (filename f))
         (s\<lparr>storage := (storage s)(p \<mapsto> file_stream f)\<rparr>) = (res, s2)"
      by (cases "extract_text_from_file e p (file_extension (filename f))
         (s\<lparr>storage := (storage s)(p \<mapsto> file_stream f)\<rparr>)")
    show ?thesis
    proof (cases res)
      case (Inl err')
      show ?thesis
        using ex allowed unfolding Inl
        by (simp add: upload_file_extract_failed [OF allowed Written p_def])
    next
      case (Inr t)
      show ?thesis
        using ex allowed unfolding Inr
        by (simp add: upload_file_extracted [OF allowed Written p_def])
    qed
  qed
qed

subsection \<open>The concrete requests\<close>

lemma file_extension_docx: "file_extension (Some ''report.docx'') = ''docx''"
  by (simp add: file_extension_def str_lower_def lower_char_def)

lemma docx_not_allowed: "file_extension (filename report_docx) \<notin> ALLOWED_EXTENSIONS"
  by (simp add: report_docx_def file_extension_docx ALLOWED_EXTENSIONS_def)

lemma file_extension_scan: "file_extension (Some ''scan.pdf'') = ''pdf''"
  by (simp add: file_extension_def str_lower_def lower_char_def)

lemma upload_scan_pdf:
  "upload_file env_ok scan_pdf state_one =
     (Inl (HTTPException 500 ''Failed to extract text from file.''),
      scan_pdf\<lparr>closed := True\<rparr>, state_one)"
  by (simp add: upload_file_def Let_def scan_pdf_def file_extension_scan ALLOWED_EXTENSIONS_def
      env_ok_def copy_upload_def extract_text_from_file_def cleanup_def state_one_def
      path_join_def STORAGE_DIR_def)

lemma scan_pdf_extract_fails:
  "fst (extract_text_from_file env_ok
          (path_join STORAGE_DIR (uuid4 env_ok @ ''.'' @ file_extension (filename scan_pdf)))
          (file_extension (filename scan_pdf))
          (state_one\<lparr>storage := (storage state_one)
             (path_join STORAGE_DIR (uuid4 env_ok @ ''.'' @ file_extension (filename scan_pdf))
                \<mapsto> file_stream scan_pdf)\<rparr>)) =
   Inl (HTTPException 500 ''Failed to extract text from file.'')"
  by (simp add: scan_pdf_def file_extension_scan extract_text_from_file_def env_ok_def)

lemma file_extension_hello: "file_extension (Some ''hello.txt'') = ''txt''"
  by (simp add: file_extension_def str_lower_def lower_char_def)

lemma upload_hello_txt:
  "fst (upload_file env_ok hello_txt state_one) =
     Inr (Created (uuid4 env_ok) ''File uploaded and text extracted successfully.'')"
  by (simp add: upload_file_def Let_def hello_txt_def file_extension_hello ALLOWED_EXTENSIONS_def
      env_ok_def copy_upload_def extract_text_from_file_def state_one_def
      path_join_def STORAGE_DIR_def utf8_decode_def)

lemma file_extension_contract: "file_extension (Some ''Contract.PDF'') = ''pdf''"
  by (simp add: file_extension_def str_lower_def lower_char_def)

lemma file_extension_notes: "file_extension (Some ''notes.txt'') = ''txt''"
  by (simp add: file_extension_def str_lower_def lower_char_def)

lemma upload_crlf_txt:
  "upload_file env_ok crlf_txt empty_state =
     (Inr (Created (uuid4 env_ok) ''File uploaded and text extracted successfully.''),
      crlf_txt\<lparr>closed := True\<rparr>,
      \<lparr>upload_store = [uuid4 env_ok \<mapsto>
          \<lparr>rec_filename = Some ''notes.txt'',
           rec_filepath = ''backend/storage/3f2b8c1e-0d4a-4e6f-9a7b-5c1d2e3f4a5b.txt'',
           rec_extension = ''txt'',
           rec_text = ''first line'' @ [CHR 0x0A] @ ''second line''\<rparr>],
       storage = [''backend/storage/3f2b8c1e-0d4a-4e6f-9a7b-5c1d2e3f4a5b.txt'' \<mapsto>
          ''first line'' @ [CHR 0x0D, CHR 0x0A] @ ''second line''],
       open_handles = 0\<rparr>)"
  by (simp add: upload_file_def Let_def crlf_txt_def file_extension_notes ALLOWED_EXTENSIONS_def
      env_ok_def copy_upload_def extract_text_from_file_def empty_state_def
      path_join_def STORAGE_DIR_def utf8_decode_def)

lemma file_extension_TXT: "file_extension (Some ''TXT'') = ''txt''"
  by (simp add: file_extension_def str_lower_def lower_char_def)

lemma file_extension_damaged: "file_extension (Some ''damaged.pdf'') = ''pdf''"
  by (simp add: file_extension_def str_lower_def lower_char_def)

lemma upload_scan_pdf_remove_fails:
  "upload_file env_remove_fails scan_pdf empty_state =
     (Inl (OSError ''[Errno 13] Permission denied''),
      scan_pdf\<lparr>closed := True\<rparr>,
      \<lparr>upload_store = Map.empty,
       storage = [''backend/storage/5e6f7a8b-9c0d-4e1f-a2b3-c4d5e6f7a8b9.pdf'' \<mapsto> ''not a pdf''],
       open_handles = 0\<rparr>)"
  by (simp add: upload_file_def Let_def scan_pdf_def file_extension_scan ALLOWED_EXTENSIONS_def
      env_remove_fails_def copy_upload_def extract_text_from_file_def cleanup_def empty_state_def
      path_join_def STORAGE_DIR_def)

section \<open>The extension of the file name\<close>

text \<open>
  Claim C1. The extension is the part of the name after its last dot, in lower case
  (\<open>file_extension_after_last_dot\<close>), and it is empty for an absent or empty name
  (\<open>file_extension_absent\<close>). For a name without a dot the claim asks for the empty
  extension and a rejection, but \<^verbatim>\<open>split(".")[-1]\<close> is then the whole name
  (\<open>file_extension_no_dot\<close>): a file named \<^verbatim>\<open>pdf\<close> or \<^verbatim>\<open>TXT\<close> passes the check
  of the extension, is stored and is answered with 201.
\<close>

theorem name_without_dot_is_the_extension:
  "file_extension (Some ''pdf'') = ''pdf'' \<and>
   file_extension (filename txt_no_dot) = ''txt'' \<and>
   file_extension (filename txt_no_dot) \<in> ALLOWED_EXTENSIONS \<and>
   fst (upload_file env_ok txt_no_dot empty_state) =
     Inr (Created (uuid4 env_ok) ''File uploaded and text extracted successfully.'') \<and>
   storage (snd (snd (upload_file env_ok txt_no_dot empty_state)))
     ''backend/storage/3f2b8c1e-0d4a-4e6f-9a7b-5c1d2e3f4a5b.txt'' = Some ''hello world'' \<and>
   fst (get_extracted_text (uuid4 env_ok) (snd (snd (upload_file env_ok txt_no_dot empty_state)))) =
     Inr (Ok (uuid4 env_ok) (Some ''TXT'') ''hello world'')"
proof -
  have pdf: "file_extension (Some ''pdf'') = ''pdf''"
    by (simp add: file_extension_def str_lower_def lower_char_def)
  have ext: "file_extension (filename txt_no_dot) = ''txt''"
    by (simp add: txt_no_dot_def file_extension_TXT)
  have up: "upload_file env_ok txt_no_dot empty_state =
     (Inr (Created (uuid4 env_ok) ''File uploaded and text extracted successfully.''),
      txt_no_dot\<lparr>closed := True\<rparr>,
      \<lparr>upload_store = [uuid4 env_ok \<mapsto>
          \<lparr>rec_filename = Some ''TXT'',
           rec_filepath = ''backend/storage/3f2b8c1e-0d4a-4e6f-9a7b-5c1d2e3f4a5b.txt'',
           rec_extension = ''txt'', rec_text = ''hello world''\<rparr>],
       storage = [''backend/storage/3f2b8c1e-0d4a-4e6f-9a7b-5c1d2e3f4a5b.txt'' \<mapsto> ''hello world''],
       open_handles = 0\<rparr>)"
    by (simp add: upload_file_def Let_def txt_no_dot_def file_extension_TXT ALLOWED_EXTENSIONS_def
        env_ok_def copy_upload_def extract_text_from_file_def empty_state_def
        path_join_def STORAGE_DIR_def utf8_decode_def)
  show ?thesis
    unfolding up ext pdf by (simp add: get_extracted_text_def txt_allowed)
qed

section \<open>Extraction and the store\<close>

text \<open>
  What the handler does on every path. With a fresh identifier, the store has a record
  for it after the request exactly when the extension was allowed, the bytes were written
  to the storage path and the extraction on that path succeeded. When the extraction fails
  no record is inserted and the request ends in a server error (status 500); when
  \<^verbatim>\<open>os.remove\<close> succeeds the file is gone and the error is the one of the
  extraction. The last conjunct records the path on which \<^verbatim>\<open>os.remove\<close> raises.
\<close>

lemma record_iff_stored_and_extracted:
  assumes "uuid4 e \<notin> dom (upload_store s)"
    and "p = path_join STORAGE_DIR (uuid4 e @ ''.'' @ file_extension (filename f))"
    and "s1 = s\<lparr>storage := (storage s)(p \<mapsto> file_stream f)\<rparr>"
  shows "(uuid4 e \<in> dom (upload_store (snd (snd (upload_file e f s)))) \<longleftrightarrow>
            file_extension (filename f) \<in> ALLOWED_EXTENSIONS \<and> write_outcome e = Written \<and>
            (\<exists>t. fst (extract_text_from_file e p (file_extension (filename f)) s1) = Inr t)) \<and>
         (file_extension (filename f) \<in> ALLOWED_EXTENSIONS \<and> write_outcome e = Written \<and>
          fst (extract_text_from_file e p (file_extension (filename f)) s1) = Inl err \<longrightarrow>
            upload_store (snd (snd (upload_file e f s))) = upload_store s \<and>
            (\<exists>err'. fst (upload_file e f s) = Inl err' \<and> status_code err' = 500) \<and>
            (remove_error e = None \<longrightarrow>
               fst (upload_file e f s) = Inl (HTTPException 500 ''Failed to extract text from file.'') \<and>
               storage (snd (snd (upload_file e f s))) p = None) \<and>
            (\<forall>msg. remove_error e = Some msg \<longrightarrow>
               fst (upload_file e f s) = Inl (OSError msg) \<and>
               storage (snd (snd (upload_file e f s))) p = Some (file_stream f)))"
proof (intro conjI impI allI)
  show "uuid4 e \<in> dom (upload_store (snd (snd (upload_file e f s)))) \<longleftrightarrow>
            file_extension (filename f) \<in> ALLOWED_EXTENSIONS \<and> write_outcome e = Written \<and>
            (\<exists>t. fst (extract_text_from_file e p (file_extension (filename f)) s1) = Inr t)"
  proof (cases "fst (upload_file e f s)")
    case (Inl err0)
    have "upload_store (snd (snd (upload_file e f s))) = upload_store s"
      using Inl by (rule upload_file_failed_store)
    with assms(1) have not_in: "uuid4 e \<notin> dom (upload_store (snd (snd (upload_file e f s))))"
      by simp
    have "\<not> (file_extension (filename f) \<in> ALLOWED_EXTENSIONS \<and> write_outcome e = Written \<and>
            (\<exists>t. fst (extract_text_from_file e p (file_extension (filename f)) s1) = Inr t))"
    proof
      assume a: "file_extension (filename f) \<in> ALLOWED_EXTENSIONS \<and> write_outcome e = Written \<and>
            (\<exists>t. fst (extract_text_from_file e p (file_extension (filename f)) s1) = Inr t)"
      then obtain t where "fst (extract_text_from_file e p (file_extension (filename f)) s1) = Inr t"
        by blast
      then obtain s2 where ex: "extract_text_from_file e p (file_extension (filename f))
          (s\<lparr>storage := (storage s)(p \<mapsto> file_stream f)\<rparr>) = (Inr t, s2)"
        unfolding assms(3)
        by (cases "extract_text_from_file e p (file_extension (filename f))
          (s\<lparr>storage := (storage s)(p \<mapsto> file_stream f)\<rparr>)") simp
      from a have allowed: "file_extension (filename f) \<in> ALLOWED_EXTENSIONS"
        and Written: "write_outcome e = Written" by simp_all
      show False
        using Inl by (simp add: upload_file_extracted [OF allowed Written assms(2) ex])
    qed
    with not_in show ?thesis by blast
  next
    case (Inr r)
    from upload_file_Inr [OF Inr assms(2)] obtain t s2 where
      allowed: "file_extension (filename f) \<in> ALLOWED_EXTENSIONS" and
      Written: "write_outcome e = Written" and
      ex: "extract_text_from_file e p (file_extension (filename f))
         (s\<lparr>storage := (storage s)(p \<mapsto> file_stream f)\<rparr>) = (Inr t, s2)"
      by blast
    have "uuid4 e \<in> dom (upload_store (snd (snd (upload_file e f s))))"
      by (simp add: upload_file_extracted [OF allowed Written assms(2) ex])
    moreover have "fst (extract_text_from_file e p (file_extension (filename f)) s1) = Inr t"
      unfolding assms(3) using ex by simp
    ultimately show ?thesis using allowed Written by blast
  qed
next
  assume a: "file_extension (filename f) \<in> ALLOWED_EXTENSIONS \<and> write_outcome e = Written \<and>
          fst (extract_text_from_file e p (file_extension (filename f)) s1) = Inl err"
  then have allowed: "file_extension (filename f) \<in> ALLOWED_EXTENSIONS"
    and Written: "write_outcome e = Written"
    and failed: "fst (extract_text_from_file e p (file_extension (filename f)) s1) = Inl err"
    by simp_all
  have err: "err = HTTPException 500 ''Failed to extract text from file.''"
    using failed by (rule extract_error)
  obtain s2 where ex: "extract_text_from_file e p (file_extension (filename f))
         (s\<lparr>storage := (storage s)(p \<mapsto> file_stream f)\<rparr>) = (Inl err, s2)"
    using failed unfolding assms(3)
    by (cases "extract_text_from_file e p (file_extension (filename f))
          (s\<lparr>storage := (storage s)(p \<mapsto> file_stream f)\<rparr>)") simp
  note up = upload_file_extract_failed [OF allowed Written assms(2) ex]
  have res: "fst (upload_file e f s) = Inl err0 \<Longrightarrow>
      upload_store (snd (snd (upload_file e f s))) = upload_store s" for err0
    by (rule upload_file_failed_store)
  show "upload_store (snd (snd (upload_file e f s))) = upload_store s"
    by (rule res) (simp add: up)
  show "\<exists>err'. fst (upload_file e f s) = Inl err' \<and> status_code err' = 500"
    unfolding err up by (auto simp: cleanup_def split: option.splits)
  {
    assume rm: "remove_error e = None"
    show "fst (upload_file e f s) = Inl (HTTPException 500 ''Failed to extract text from file.'')"
      unfolding up err by (simp add: cleanup_removes [OF rm])
    show "storage (snd (snd (upload_file e f s))) p = None"
      unfolding up by (simp add: cleanup_removes [OF rm])
  }
  {
    fix msg assume rm: "remove_error e = Some msg"
    have "storage s2 p = Some (file_stream f)"
      using extract_keeps_storage [of e p "file_extension (filename f)"
          "s\<lparr>storage := (storage s)(p \<mapsto> file_stream f)\<rparr>"] ex by simp
    then have cl: "cleanup e p s2 = (Some (OSError msg), s2)" and st: "storage s2 p = Some (file_stream f)"
      using cleanup_fails [OF rm, of s2 p] by simp_all
    show "fst (upload_file e f s) = Inl (OSError msg)"
      unfolding up by (simp add: cl)
    show "storage (snd (snd (upload_file e f s))) p = Some (file_stream f)"
      unfolding up by (simp add: cl st)
  }
qed

lemma record_iff_stored_and_extracted_examples:
  "uuid4 env_ok \<notin> dom (upload_store state_one) \<and>
   file_extension (filename scan_pdf) \<in> ALLOWED_EXTENSIONS \<and>
   write_outcome env_ok = Written \<and>
   remove_error env_ok = None \<and>
   fst (extract_text_from_file env_ok
          (path_join STORAGE_DIR (uuid4 env_ok @ ''.'' @ file_extension (filename scan_pdf)))
          (file_extension (filename scan_pdf))
          (state_one\<lparr>storage := (storage state_one)
             (path_join STORAGE_DIR (uuid4 env_ok @ ''.'' @ file_extension (filename scan_pdf))
                \<mapsto> file_stream scan_pdf)\<rparr>)) =
     Inl (HTTPException 500 ''Failed to extract text from file.'') \<and>
   uuid4 env_ok \<notin> dom (upload_store (snd (snd (upload_file env_ok scan_pdf state_one)))) \<and>
   fst (upload_file env_ok scan_pdf state_one) =
     Inl (HTTPException 500 ''Failed to extract text from file.'') \<and>
   storage (snd (snd (upload_file env_ok scan_pdf state_one)))
     (path_join STORAGE_DIR (uuid4 env_ok @ ''.'' @ file_extension (filename scan_pdf))) = None \<and>
   uuid4 env_ok \<in> dom (upload_store (snd (snd (upload_file env_ok hello_txt state_one)))) \<and>
   remove_error env_remove_fails = Some ''[Errno 13] Permission denied'' \<and>
   fst (upload_file env_remove_fails scan_pdf empty_state) =
     Inl (OSError ''[Errno 13] Permission denied'') \<and>
   upload_store (snd (snd (upload_file env_remove_fails scan_pdf empty_state))) = Map.empty"
proof -
  have fresh: "uuid4 env_ok \<notin> dom (upload_store state_one)"
    by (simp add: state_one_def env_ok_def)
  have allowed: "file_extension (filename scan_pdf) \<in> ALLOWED_EXTENSIONS"
    by (simp add: scan_pdf_def file_extension_scan pdf_allowed)
  have w: "write_outcome env_ok = Written" and rm: "remove_error env_ok = None"
    by (simp_all add: env_ok_def)
  have hello: "fst (extract_text_from_file env_ok
          (path_join STORAGE_DIR (uuid4 env_ok @ ''.'' @ file_extension (filename hello_txt)))
          (file_extension (filename hello_txt))
          (state_one\<lparr>storage := (storage state_one)
             (path_join STORAGE_DIR (uuid4 env_ok @ ''.'' @ file_extension (filename hello_txt))
                \<mapsto> file_stream hello_txt)\<rparr>)) = Inr ''hi''"
    by (simp add: hello_txt_def file_extension_hello extract_text_from_file_def utf8_decode_def)
  have allowed': "file_extension (filename hello_txt) \<in> ALLOWED_EXTENSIONS"
    by (simp add: hello_txt_def file_extension_hello txt_allowed)
  note scan = record_iff_stored_and_extracted [OF fresh refl refl, of scan_pdf
        "HTTPException 500 ''Failed to extract text from file.''"]
  note hello_inst = record_iff_stored_and_extracted [OF fresh refl refl, of hello_txt
        "HTTPException 500 ''Failed to extract text from file.''"]
  have c1: "uuid4 env_ok \<notin> dom (upload_store (snd (snd (upload_file env_ok scan_pdf state_one))))"
    using scan scan_pdf_extract_fails by simp
  have c2: "fst (upload_file env_ok scan_pdf state_one) =
       Inl (HTTPException 500 ''Failed to extract text from file.'') \<and>
     storage (snd (snd (upload_file env_ok scan_pdf state_one)))
       (path_join STORAGE_DIR (uuid4 env_ok @ ''.'' @ file_extension (filename scan_pdf))) = None"
    using scan scan_pdf_extract_fails allowed w rm by simp
  have c3: "uuid4 env_ok \<in> dom (upload_store (snd (snd (upload_file env_ok hello_txt state_one))))"
    using hello_inst hello allowed' w by simp
  have fresh2: "uuid4 env_remove_fails \<notin> dom (upload_store empty_state)"
    by (simp add: empty_state_def)
  have w2: "write_outcome env_remove_fails = Written"
    and rm2: "remove_error env_remove_fails = Some ''[Errno 13] Permission denied''"
    by (simp_all add: env_remove_fails_def)
  have ex2: "fst (extract_text_from_file env_remove_fails
          (path_join STORAGE_DIR (uuid4 env_remove_fails @ ''.'' @ file_extension (filename scan_pdf)))
          (file_extension (filename scan_pdf))
          (empty_state\<lparr>storage := (storage empty_state)
             (path_join STORAGE_DIR (uuid4 env_remove_fails @ ''.'' @ file_extension (filename scan_pdf))
                \<mapsto> file_stream scan_pdf)\<rparr>)) =
     Inl (HTTPException 500 ''Failed to extract text from file.'')"
    by (simp add: scan_pdf_def file_extension_scan extract_text_from_file_def env_remove_fails_def)
  note scan2 = record_iff_stored_and_extracted [OF fresh2 refl refl, of scan_pdf
        "HTTPException 500 ''Failed to extract text from file.''"]
  have c4: "fst (upload_file env_remove_fails scan_pdf empty_state) =
       Inl (OSError ''[Errno 13] Permission denied'') \<and>
     upload_store (snd (snd (upload_file env_remove_fails scan_pdf empty_state))) = Map.empty"
    using scan2 ex2 allowed w2 rm2 by (simp add: empty_state_def)
  show ?thesis
    using fresh allowed w rm rm2 scan_pdf_extract_fails c1 c2 c3 c4 by simp
qed

text \<open>
  Claim C2. A record exists for the identifier exactly when the bytes were written and
  the extraction succeeded, and a failed extraction leaves no record, removes the file
  that was just written and is propagated as a server error
  (\<open>record_iff_stored_and_extracted\<close>: all of it holds when \<^verbatim>\<open>os.remove\<close> does not
  raise, and no record and status 500 hold on every path). The bare \<^verbatim>\<open>raise\<close> of
  line 86 is there to propagate the failure of the extraction, but the
  \<^verbatim>\<open>os.remove\<close> of line 85 is not guarded: when it raises, the \<^verbatim>\<open>raise\<close> is
  not reached, the \<^verbatim>\<open>OSError\<close> leaves the handler in place of the failure of the
  extraction, and the file stays.
\<close>

theorem extraction_failure_masked_by_remove_error:
  "file_extension (filename scan_pdf) \<in> ALLOWED_EXTENSIONS \<and>
   write_outcome env_remove_fails = Written \<and>
   fst (extract_text_from_file env_remove_fails
          ''backend/storage/5e6f7a8b-9c0d-4e1f-a2b3-c4d5e6f7a8b9.pdf'' ''pdf''
          \<lparr>upload_store = Map.empty,
           storage = [''backend/storage/5e6f7a8b-9c0d-4e1f-a2b3-c4d5e6f7a8b9.pdf'' \<mapsto> ''not a pdf''],
           open_handles = 0\<rparr>) =
     Inl (HTTPException 500 ''Failed to extract text from file.'') \<and>
   fst (upload_file env_remove_fails scan_pdf empty_state) =
     Inl (OSError ''[Errno 13] Permission denied'') \<and>
   fst (upload_file env_remove_fails scan_pdf empty_state) \<noteq>
     Inl (HTTPException 500 ''Failed to extract text from file.'') \<and>
   storage (snd (snd (upload_file env_remove_fails scan_pdf empty_state)))
     ''backend/storage/5e6f7a8b-9c0d-4e1f-a2b3-c4d5e6f7a8b9.pdf'' = Some ''not a pdf''"
proof -
  have a: "file_extension (filename scan_pdf) \<in> ALLOWED_EXTENSIONS"
    by (simp add: scan_pdf_def file_extension_scan pdf_allowed)
  have b: "write_outcome env_remove_fails = Written"
    by (simp add: env_remove_fails_def)
  have c: "fst (extract_text_from_file env_remove_fails
          ''backend/storage/5e6f7a8b-9c0d-4e1f-a2b3-c4d5e6f7a8b9.pdf'' ''pdf''
          \<lparr>upload_store = Map.empty,
           storage = [''backend/storage/5e6f7a8b-9c0d-4e1f-a2b3-c4d5e6f7a8b9.pdf'' \<mapsto> ''not a pdf''],
           open_handles = 0\<rparr>) =
     Inl (HTTPException 500 ''Failed to extract text from file.'')"
    by (simp add: extract_text_from_file_def env_remove_fails_def)
  show ?thesis
    using a b c unfolding upload_scan_pdf_remove_fails by simp
qed

section \<open>Validation failures\<close>

text \<open>
  Claim C3. An upload whose derived extension is not in \<^verbatim>\<open>{pdf, txt}\<close> fails with
  status 400 at once: the files of the storage directory and the store are what they were
  before the request.
\<close>

theorem invalid_extension_rejected:
  "file_extension (filename f) \<notin> ALLOWED_EXTENSIONS \<Longrightarrow>
   (\<exists>detail. fst (upload_file e f s) = Inl (HTTPException 400 detail)) \<and>
   storage (snd (snd (upload_file e f s))) = storage s \<and>
   upload_store (snd (snd (upload_file e f s))) = upload_store s"
  by (simp add: upload_file_invalid)

theorem invalid_extension_rejected_witness:
  "file_extension (filename report_docx) \<notin> ALLOWED_EXTENSIONS \<and>
   (\<exists>detail. fst (upload_file env_ok report_docx empty_state) = Inl (HTTPException 400 detail)) \<and>
   storage (snd (snd (upload_file env_ok report_docx empty_state))) = Map.empty \<and>
   upload_store (snd (snd (upload_file env_ok report_docx empty_state))) = Map.empty"
  using docx_not_allowed invalid_extension_rejected [OF docx_not_allowed, of env_ok empty_state]
  by (simp add: empty_state_def)

section \<open>Round trip of a text file\<close>

text \<open>
  Claim C4, as amended. For a \<^verbatim>\<open>txt\<close> upload whose content is well-formed UTF-8 and
  is stored, the upload succeeds, and retrieval by the returned identifier succeeds with
  the file name that was uploaded and with the content after the translation of line
  endings that Python's text mode applies (\<^verbatim>\<open>\r\n\<close> and \<^verbatim>\<open>\r\<close> become
  \<^verbatim>\<open>\n\<close>): the text is the content itself when the content has no carriage return.
\<close>

theorem txt_round_trip_newlines:
  assumes "file_extension (filename f) = ''txt''"
    and "write_outcome e = Written"
    and "utf8_ok (map of_char (file_stream f))"
  shows "fst (upload_file e f s) =
           Inr (Created (uuid4 e) ''File uploaded and text extracted successfully.'') \<and>
         fst (get_extracted_text (uuid4 e) (snd (snd (upload_file e f s)))) =
           Inr (Ok (uuid4 e) (filename f) (universal_newlines (file_stream f))) \<and>
         (CHR 0x0D \<notin> set (file_stream f) \<longrightarrow>
            fst (get_extracted_text (uuid4 e) (snd (snd (upload_file e f s)))) =
              Inr (Ok (uuid4 e) (filename f) (file_stream f)))"
proof -
  define p where "p = path_join STORAGE_DIR (uuid4 e @ ''.'' @ file_extension (filename f))"
  have allowed: "file_extension (filename f) \<in> ALLOWED_EXTENSIONS"
    using assms(1) txt_allowed by simp
  have ex: "extract_text_from_file e p (file_extension (filename f))
              (s\<lparr>storage := (storage s)(p \<mapsto> file_stream f)\<rparr>) =
            (Inr (universal_newlines (file_stream f)),
             s\<lparr>storage := (storage s)(p \<mapsto> file_stream f)\<rparr>)"
    unfolding assms(1) by (rule extract_txt_decoded [OF _ assms(3)]) simp
  show ?thesis
    by (simp add: upload_file_extracted [OF allowed assms(2) p_def ex] get_extracted_text_def
        universal_newlines_no_cr)
qed

theorem txt_round_trip_newlines_witness:
  "file_extension (filename notes_txt) = ''txt'' \<and>
   write_outcome env_ok = Written \<and>
   utf8_ok (map of_char (file_stream notes_txt)) \<and>
   CHR 0x0D \<notin> set (file_stream notes_txt) \<and>
   fst (upload_file env_ok notes_txt empty_state) =
     Inr (Created (uuid4 env_ok) ''File uploaded and text extracted successfully.'') \<and>
   fst (get_extracted_text (uuid4 env_ok) (snd (snd (upload_file env_ok notes_txt empty_state)))) =
     Inr (Ok (uuid4 env_ok) (Some ''notes.txt'') ''hello world'')"
proof -
  have h1: "file_extension (filename notes_txt) = ''txt''"
    by (simp add: notes_txt_def file_extension_notes)
  have h2: "write_outcome env_ok = Written"
    by (simp add: env_ok_def)
  have h3: "utf8_ok (map of_char (file_stream notes_txt))"
    by (simp add: notes_txt_def)
  have h4: "CHR 0x0D \<notin> set (file_stream notes_txt)"
    by (simp add: notes_txt_def)
  show ?thesis
    using h1 h2 h3 h4 txt_round_trip_newlines [OF h1 h2 h3, of empty_state]
    by (simp add: notes_txt_def)
qed

text \<open>
  The claim as stated fails on a file with a Windows line ending: the text returned has
  \<^verbatim>\<open>\n\<close> where the content has \<^verbatim>\<open>\r\n\<close>.
\<close>

theorem txt_round_trip_counterexample:
  "file_extension (filename crlf_txt) = ''txt'' \<and>
   utf8_ok (map of_char (file_stream crlf_txt)) \<and>
   fst (upload_file env_ok crlf_txt empty_state) =
     Inr (Created (uuid4 env_ok) ''File uploaded and text extracted successfully.'') \<and>
   fst (get_extracted_text (uuid4 env_ok) (snd (snd (upload_file env_ok crlf_txt empty_state)))) =
     Inr (Ok (uuid4 env_ok) (Some ''notes.txt'') (''first line'' @ [CHR 0x0A] @ ''second line'')) \<and>
   fst (get_extracted_text (uuid4 env_ok) (snd (snd (upload_file env_ok crlf_txt empty_state)))) \<noteq>
     Inr (Ok (uuid4 env_ok) (filename crlf_txt) (file_stream crlf_txt))"
  by (simp add: upload_crlf_txt get_extracted_text_def)
     (simp add: crlf_txt_def file_extension_notes)

section \<open>The text of a PDF\<close>

text \<open>
  Claim C5. For a \<^verbatim>\<open>pdf\<close> upload that is stored and that PyMuPDF opens and renders
  page by page, the upload succeeds and the text recorded and returned for it is the
  concatenation of the texts of the pages, in the order of the document, with nothing
  between them.
\<close>

theorem pdf_text_concatenates_pages:
  assumes "file_extension (filename f) = ''pdf''"
    and "write_outcome e = Written"
    and "fitz_open e (file_stream f) = Some (map Some page_texts)"
  shows "fst (upload_file e f s) =
           Inr (Created (uuid4 e) ''File uploaded and text extracted successfully.'') \<and>
         map_option rec_text (upload_store (snd (snd (upload_file e f s))) (uuid4 e)) =
           Some (concat page_texts) \<and>
         fst (get_extracted_text (uuid4 e) (snd (snd (upload_file e f s)))) =
           Inr (Ok (uuid4 e) (filename f) (concat page_texts))"
proof -
  define p where "p = path_join STORAGE_DIR (uuid4 e @ ''.'' @ file_extension (filename f))"
  have allowed: "file_extension (filename f) \<in> ALLOWED_EXTENSIONS"
    using assms(1) pdf_allowed by simp
  have ex: "extract_text_from_file e p (file_extension (filename f))
              (s\<lparr>storage := (storage s)(p \<mapsto> file_stream f)\<rparr>) =
            (Inr (concat page_texts), s\<lparr>storage := (storage s)(p \<mapsto> file_stream f)\<rparr>)"
    unfolding assms(1) by (rule extract_pdf_pages [OF _ assms(3)]) simp
  show ?thesis
    by (simp add: upload_file_extracted [OF allowed assms(2) p_def ex] get_extracted_text_def)
qed

theorem pdf_text_concatenates_pages_witness:
  "file_extension (filename contract_pdf) = ''pdf'' \<and>
   write_outcome env_two_pages = Written \<and>
   fitz_open env_two_pages (file_stream contract_pdf) =
     Some [Some ''Section 1. Parties. '', Some ''Section 2. Term.''] \<and>
   fst (get_extracted_text (uuid4 env_two_pages)
          (snd (snd (upload_file env_two_pages contract_pdf empty_state)))) =
     Inr (Ok (uuid4 env_two_pages) (Some ''Contract.PDF'') ''Section 1. Parties. Section 2. Term.'')"
proof -
  have h1: "file_extension (filename contract_pdf) = ''pdf''"
    by (simp add: contract_pdf_def file_extension_contract)
  have h2: "write_outcome env_two_pages = Written"
    by (simp add: env_two_pages_def)
  have h3: "fitz_open env_two_pages (file_stream contract_pdf) =
      Some (map Some [''Section 1. Parties. '', ''Section 2. Term.''])"
    by (simp add: env_two_pages_def contract_pdf_def)
  show ?thesis
    using h1 h2 h3 pdf_text_concatenates_pages [OF h1 h2 h3, of empty_state]
    by (simp add: contract_pdf_def)
qed

section \<open>Retrieval\<close>

text \<open>
  Claim C6. \<^verbatim>\<open>get_extracted_text\<close> answers 404 with the detail
  \<^verbatim>\<open>Document ID not found.\<close> exactly for the identifiers that are not keys of the
  store; for a key it returns the stored file name and text as they are. The identifier of
  an upload that failed is not a key (unless it was one before), so it gets 404 as well.
\<close>

theorem get_text_not_found_iff:
  "(fst (get_extracted_text doc_id s) = Inl (HTTPException 404 ''Document ID not found.'') \<longleftrightarrow>
      doc_id \<notin> dom (upload_store s)) \<and>
   (upload_store s doc_id = Some r \<longrightarrow>
      fst (get_extracted_text doc_id s) = Inr (Ok doc_id (rec_filename r) (rec_text r))) \<and>
   (uuid4 e \<notin> dom (upload_store s) \<and> fst (upload_file e f s) = Inl err \<longrightarrow>
      fst (get_extracted_text (uuid4 e) (snd (snd (upload_file e f s)))) =
        Inl (HTTPException 404 ''Document ID not found.''))"
proof (intro conjI impI)
  show "fst (get_extracted_text doc_id s) = Inl (HTTPException 404 ''Document ID not found.'') \<longleftrightarrow>
      doc_id \<notin> dom (upload_store s)"
    by (auto simp: get_extracted_text_def split: option.splits)
next
  assume "upload_store s doc_id = Some r"
  then show "fst (get_extracted_text doc_id s) = Inr (Ok doc_id (rec_filename r) (rec_text r))"
    by (simp add: get_extracted_text_def)
next
  assume a: "uuid4 e \<notin> dom (upload_store s) \<and> fst (upload_file e f s) = Inl err"
  then have "upload_store (snd (snd (upload_file e f s))) (uuid4 e) = None"
    by (auto simp: upload_file_failed_store)
  then show "fst (get_extracted_text (uuid4 e) (snd (snd (upload_file e f s)))) =
        Inl (HTTPException 404 ''Document ID not found.'')"
    by (simp add: get_extracted_text_def)
qed

theorem get_text_not_found_iff_witness:
  "upload_store state_one ''7d9a2c44-51b0-4c3e-8f6a-0b1c2d3e4f50'' = Some notes_record \<and>
   fst (get_extracted_text ''7d9a2c44-51b0-4c3e-8f6a-0b1c2d3e4f50'' state_one) =
     Inr (Ok ''7d9a2c44-51b0-4c3e-8f6a-0b1c2d3e4f50'' (Some ''notes.txt'') ''hello world'') \<and>
   uuid4 env_ok \<notin> dom (upload_store state_one) \<and>
   fst (upload_file env_ok scan_pdf state_one) =
     Inl (HTTPException 500 ''Failed to extract text from file.'') \<and>
   fst (get_extracted_text (uuid4 env_ok) (snd (snd (upload_file env_ok scan_pdf state_one)))) =
     Inl (HTTPException 404 ''Document ID not found.'')"
proof -
  have h1: "upload_store state_one ''7d9a2c44-51b0-4c3e-8f6a-0b1c2d3e4f50'' = Some notes_record"
    by (simp add: state_one_def)
  have h2: "uuid4 env_ok \<notin> dom (upload_store state_one)"
    by (simp add: state_one_def env_ok_def)
  have h3: "fst (upload_file env_ok scan_pdf state_one) =
     Inl (HTTPException 500 ''Failed to extract text from file.'')"
    by (simp add: upload_scan_pdf)
  show ?thesis
    using h1 h2 h3
      get_text_not_found_iff [of "''7d9a2c44-51b0-4c3e-8f6a-0b1c2d3e4f50''" state_one notes_record
        env_ok scan_pdf "HTTPException 500 ''Failed to extract text from file.''"]
    by (simp add: notes_record_def)
qed

section \<open>Handles left open by the extraction\<close>

text \<open>
  Claim C7. The \<^verbatim>\<open>txt\<close> branch releases its file on every path
  (\<open>extract_txt_releases\<close>), and the \<^verbatim>\<open>pdf\<close> branch closes the document when all
  pages were read. When PyMuPDF opens the document and a page then fails to load or
  render, the exception skips \<^verbatim>\<open>doc.close()\<close>: the extraction, and the upload that
  called it, return with the document still open (\<open>extract_handles\<close> gives the count on
  every path).
\<close>

theorem pdf_document_left_open_when_page_fails:
  "fst (extract_text_from_file env_page_fails ''backend/storage/doc.pdf'' ''pdf''
          \<lparr>upload_store = Map.empty,
           storage = [''backend/storage/doc.pdf'' \<mapsto> ''%PDF-1.6 (page 2 damaged)''],
           open_handles = 0\<rparr>) =
     Inl (HTTPException 500 ''Failed to extract text from file.'') \<and>
   open_handles (snd (extract_text_from_file env_page_fails ''backend/storage/doc.pdf'' ''pdf''
          \<lparr>upload_store = Map.empty,
           storage = [''backend/storage/doc.pdf'' \<mapsto> ''%PDF-1.6 (page 2 damaged)''],
           open_handles = 0\<rparr>)) = 1 \<and>
   fst (upload_file env_page_fails damaged_pdf empty_state) =
     Inl (HTTPException 500 ''Failed to extract text from file.'') \<and>
   open_handles (snd (snd (upload_file env_page_fails damaged_pdf empty_state))) = 1"
proof -
  have up: "upload_file env_page_fails damaged_pdf empty_state =
     (Inl (HTTPException 500 ''Failed to extract text from file.''),
      damaged_pdf\<lparr>closed := True\<rparr>,
      \<lparr>upload_store = Map.empty, storage = Map.empty, open_handles = 1\<rparr>)"
    by (simp add: upload_file_def Let_def damaged_pdf_def file_extension_damaged
        ALLOWED_EXTENSIONS_def env_page_fails_def copy_upload_def extract_text_from_file_def
        cleanup_def empty_state_def path_join_def STORAGE_DIR_def)
  show ?thesis
    unfolding up by (simp add: extract_text_from_file_def env_page_fails_def)
qed

section \<open>The detail of a rejected upload\<close>

text \<open>
  Claim C8, as amended. The detail of the 400 response lists the allowed extensions in the
  order in which the set \<^verbatim>\<open>ALLOWED_EXTENSIONS\<close> is iterated: it is one of two strings,
  the one with \<^verbatim>\<open>PDF, TXT\<close> exactly when \<^verbatim>\<open>pdf\<close> comes first, and it is the
  same for all rejected uploads that see the same order (all requests of one process).
\<close>

theorem invalid_type_detail_follows_set_order:
  assumes "file_extension (filename f) \<notin> ALLOWED_EXTENSIONS"
    and "distinct (set_order e)"
    and "set (set_order e) = ALLOWED_EXTENSIONS"
  shows "(fst (upload_file e f s) =
            Inl (HTTPException 400 ''Invalid file type. Only PDF, TXT files are allowed.'') \<or>
          fst (upload_file e f s) =
            Inl (HTTPException 400 ''Invalid file type. Only TXT, PDF files are allowed.'')) \<and>
         (set_order e = [''pdf'', ''txt''] \<longleftrightarrow>
          fst (upload_file e f s) =
            Inl (HTTPException 400 ''Invalid file type. Only PDF, TXT files are allowed.'')) \<and>
         (file_extension (filename f') \<notin> ALLOWED_EXTENSIONS \<and> set_order e' = set_order e \<longrightarrow>
            fst (upload_file e' f' s') = fst (upload_file e f s))"
proof -
  have res: "fst (upload_file e f s) = Inl (HTTPException 400 (invalid_type_detail (set_order e)))"
    using assms(1) by (simp add: upload_file_invalid)
  have same: "file_extension (filename f') \<notin> ALLOWED_EXTENSIONS \<and> set_order e' = set_order e \<longrightarrow>
            fst (upload_file e' f' s') = fst (upload_file e f s)"
    unfolding res by (simp add: upload_file_invalid)
  have ne: "''pdf'' \<noteq> ''txt''" by simp
  have "set (set_order e) = {''pdf'', ''txt''}"
    using assms(3) by (simp only: ALLOWED_EXTENSIONS_def)
  from two_element_orders [OF assms(2) this ne]
  have "set_order e = [''pdf'', ''txt''] \<or> set_order e = [''txt'', ''pdf'']" .
  then show ?thesis
  proof
    assume o: "set_order e = [''pdf'', ''txt'']"
    show ?thesis
      using same unfolding res o detail_pdf_txt by simp
  next
    assume o: "set_order e = [''txt'', ''pdf'']"
    have no: "[''txt'', ''pdf''] \<noteq> [''pdf'', ''txt'']" by simp
    show ?thesis
      using same no details_differ unfolding res o detail_txt_pdf by simp
  qed
qed

theorem invalid_type_detail_follows_set_order_witness:
  "file_extension (filename report_docx) \<notin> ALLOWED_EXTENSIONS \<and>
   distinct (set_order env_ok) \<and>
   set (set_order env_ok) = ALLOWED_EXTENSIONS \<and>
   set_order env_ok = [''pdf'', ''txt''] \<and>
   fst (upload_file env_ok report_docx empty_state) =
     Inl (HTTPException 400 ''Invalid file type. Only PDF, TXT files are allowed.'') \<and>
   set_order env_page_fails = set_order env_ok \<and>
   fst (upload_file env_page_fails report_docx state_one) =
     fst (upload_file env_ok report_docx empty_state)"
proof -
  have h2: "distinct (set_order env_ok)"
    by (simp add: env_ok_def)
  have h3: "set (set_order env_ok) = ALLOWED_EXTENSIONS"
    by (simp add: env_ok_def ALLOWED_EXTENSIONS_def)
  have h4: "set_order env_ok = [''pdf'', ''txt'']"
    by (simp add: env_ok_def)
  have h5: "set_order env_page_fails = set_order env_ok"
    by (simp add: env_ok_def env_page_fails_def)
  note inst = invalid_type_detail_follows_set_order [OF docx_not_allowed h2 h3,
      of empty_state report_docx env_page_fails state_one]
  from inst have "set_order env_ok = [''pdf'', ''txt''] \<longleftrightarrow>
          fst (upload_file env_ok report_docx empty_state) =
            Inl (HTTPException 400 ''Invalid file type. Only PDF, TXT files are allowed.'')"
    by (rule conjunct1 [OF conjunct2])
  then have a: "fst (upload_file env_ok report_docx empty_state) =
            Inl (HTTPException 400 ''Invalid file type. Only PDF, TXT files are allowed.'')"
    using h4 by (rule iffD1)
  from inst have "file_extension (filename report_docx) \<notin> ALLOWED_EXTENSIONS \<and>
      set_order env_page_fails = set_order env_ok \<longrightarrow>
      fst (upload_file env_page_fails report_docx state_one) =
        fst (upload_file env_ok report_docx empty_state)"
    by (rule conjunct2 [OF conjunct2])
  then have b: "fst (upload_file env_page_fails report_docx state_one) =
        fst (upload_file env_ok report_docx empty_state)"
    using docx_not_allowed h5 by blast
  from docx_not_allowed h2 h3 h4 a h5 b show ?thesis
    by (intro conjI)
qed

text \<open>
  The claim as stated fails in a process that iterates the set with \<^verbatim>\<open>txt\<close> first.
\<close>

theorem invalid_type_detail_counterexample:
  "file_extension (filename report_docx) \<notin> ALLOWED_EXTENSIONS \<and>
   distinct (set_order env_txt_first) \<and>
   set (set_order env_txt_first) = ALLOWED_EXTENSIONS \<and>
   fst (upload_file env_txt_first report_docx empty_state) =
     Inl (HTTPException 400 ''Invalid file type. Only TXT, PDF files are allowed.'') \<and>
   fst (upload_file env_txt_first report_docx empty_state) \<noteq>
     Inl (HTTPException 400 ''Invalid file type. Only PDF, TXT files are allowed.'')"
proof -
  have o: "set_order env_txt_first = [''txt'', ''pdf'']"
    by (simp add: env_txt_first_def)
  have h2: "distinct (set_order env_txt_first)"
    unfolding o by simp
  have h3: "set (set_order env_txt_first) = ALLOWED_EXTENSIONS"
    unfolding o ALLOWED_EXTENSIONS_def by (simp add: insert_commute)
  have res: "fst (upload_file env_txt_first report_docx empty_state) =
     Inl (HTTPException 400 ''Invalid file type. Only TXT, PDF files are allowed.'')"
    by (simp add: upload_file_invalid [OF docx_not_allowed] o detail_txt_pdf)
  have ne: "fst (upload_file env_txt_first report_docx empty_state) \<noteq>
     Inl (HTTPException 400 ''Invalid file type. Only PDF, TXT files are allowed.'')"
    unfolding res using details_differ by simp
  from docx_not_allowed h2 h3 res ne show ?thesis
    by (intro conjI)
qed

section \<open>The records of the store\<close>

text \<open>
  Claim C9. Retrieval returns the state it was given, and an upload changes the store at
  most under its own identifier: with a fresh identifier every record stored before is
  unchanged.
\<close>

theorem records_never_mutated:
  "snd (get_extracted_text doc_id s) = s \<and>
   (\<forall>k. k \<noteq> uuid4 e \<longrightarrow> upload_store (snd (snd (upload_file e f s))) k = upload_store s k) \<and>
   (uuid4 e \<notin> dom (upload_store s) \<longrightarrow>
      (\<forall>k \<in> dom (upload_store s).
         upload_store (snd (snd (upload_file e f s))) k = upload_store s k))"
proof (intro conjI allI impI ballI)
  show "snd (get_extracted_text doc_id s) = s"
    by (simp add: get_extracted_text_def split: option.splits)
next
  fix k assume "k \<noteq> uuid4 e"
  then show "upload_store (snd (snd (upload_file e f s))) k = upload_store s k"
    by (rule upload_file_other_keys)
next
  fix k assume "uuid4 e \<notin> dom (upload_store s)" and "k \<in> dom (upload_store s)"
  then have "k \<noteq> uuid4 e" by blast
  then show "upload_store (snd (snd (upload_file e f s))) k = upload_store s k"
    by (rule upload_file_other_keys)
qed

theorem records_never_mutated_witness:
  "uuid4 env_ok \<notin> dom (upload_store state_one) \<and>
   ''7d9a2c44-51b0-4c3e-8f6a-0b1c2d3e4f50'' \<in> dom (upload_store state_one) \<and>
   fst (upload_file env_ok hello_txt state_one) =
     Inr (Created (uuid4 env_ok) ''File uploaded and text extracted successfully.'') \<and>
   upload_store (snd (snd (upload_file env_ok hello_txt state_one)))
     ''7d9a2c44-51b0-4c3e-8f6a-0b1c2d3e4f50'' = Some notes_record \<and>
   snd (get_extracted_text ''7d9a2c44-51b0-4c3e-8f6a-0b1c2d3e4f50'' state_one) = state_one"
proof -
  have h1: "uuid4 env_ok \<notin> dom (upload_store state_one)"
    by (simp add: state_one_def env_ok_def)
  have h2: "''7d9a2c44-51b0-4c3e-8f6a-0b1c2d3e4f50'' \<in> dom (upload_store state_one)"
    by (simp add: state_one_def)
  have h3: "upload_store state_one ''7d9a2c44-51b0-4c3e-8f6a-0b1c2d3e4f50'' = Some notes_record"
    by (simp add: state_one_def)
  from records_never_mutated [of "''7d9a2c44-51b0-4c3e-8f6a-0b1c2d3e4f50''" state_one
      env_ok hello_txt]
  have "snd (get_extracted_text ''7d9a2c44-51b0-4c3e-8f6a-0b1c2d3e4f50'' state_one) = state_one"
    and "\<forall>k \<in> dom (upload_store state_one).
         upload_store (snd (snd (upload_file env_ok hello_txt state_one))) k = upload_store state_one k"
    using h1 by blast+
  with h1 h2 h3 upload_hello_txt show ?thesis by simp
qed

section \<open>The stream of a rejected upload\<close>

text \<open>
  Claim C10. An upload that fails the extension check comes back with its stream as it was:
  the stream is closed by the \<^verbatim>\<open>finally\<close> clause of the copy step only, which is
  reached exactly when the extension is allowed.
\<close>

theorem stream_closed_only_by_copy_step:
  "(file_extension (filename f) \<notin> ALLOWED_EXTENSIONS \<longrightarrow>
      fst (snd (upload_file e f s)) = f) \<and>
   (closed (fst (snd (upload_file e f s))) \<longleftrightarrow>
      closed f \<or> file_extension (filename f) \<in> ALLOWED_EXTENSIONS)"
  by (simp add: upload_file_closed upload_file_invalid)

theorem stream_closed_only_by_copy_step_witness:
  "file_extension (filename report_docx) \<notin> ALLOWED_EXTENSIONS \<and>
   \<not> closed report_docx \<and>
   \<not> closed (fst (snd (upload_file env_ok report_docx empty_state)))"
  using docx_not_allowed stream_closed_only_by_copy_step [of report_docx env_ok empty_state]
  by (simp add: report_docx_def)

end
